theory Spec2Isabelle
  imports Main "HOL-Library.AList"
begin

section \<open>JSON values and dictionaries\<close>

text \<open>
  Node configurations, execution data and grant permissions are JSON columns: Python
  dictionaries, lists, strings, integers, booleans and \<open>None\<close>. A dictionary is an
  association list in insertion order; \<open>dict_get\<close> is \<open>d.get(k)\<close> and \<open>dict_set\<close> is
  \<open>d[k] = v\<close> (an existing key keeps its place, a new key goes last). Floating-point
  numbers are left out.
\<close>

datatype json =
    JNull
  | JBool bool
  | JInt int
  | JStr string
  | JList "json list"
  | JObj "(string \<times> json) list"

type_synonym dict = "(string \<times> json) list"

definition dict_get :: "dict \<Rightarrow> string \<Rightarrow> json option" where
  "dict_get d k = map_of d k"

definition dict_set :: "string \<Rightarrow> json \<Rightarrow> dict \<Rightarrow> dict" where
  "dict_set k v d = AList.update k v d"

text \<open>Python truthiness of a JSON value, as \<open>all([...])\<close> and \<open>if not x\<close> read it.\<close>

fun truthy :: "json \<Rightarrow> bool" where
  "truthy JNull = False"
| "truthy (JBool b) = b"
| "truthy (JInt n) = (n \<noteq> 0)"
| "truthy (JStr s) = (s \<noteq> [])"
| "truthy (JList xs) = (xs \<noteq> [])"
| "truthy (JObj d) = (d \<noteq> [])"

section \<open>Exceptions\<close>

text \<open>
  Every \<open>raise\<close> of the source is a value. \<open>UnresolvedPlaceholder value path\<close> is the
  resolver's \<open>ValueError(f"Could not resolve placeholder '{value}'. Path '{path}' not
  found in execution data: ...")\<close>, kept with its two interpolated fields; the other
  constructors carry the message.
\<close>

datatype exn =
    ValueError string
  | UnresolvedPlaceholder string string
  | AttributeError string
  | KeyError string
  | TypeError string
  | NameError string
  | NotImplementedError string
  | SigningException string
  | CircuitBreakerError string
  | BlockchainServiceException string
  | ProviderError string

text \<open>The \<open>NameError\<close> Python raises when a name is bound neither in the module nor as a built-in.\<close>

definition name_error :: "string \<Rightarrow> exn" where
  "name_error n =
     NameError (''name '' @ [CHR 0x27] @ n @ [CHR 0x27] @ '' is not defined'')"

fun py_type_name :: "json \<Rightarrow> string" where
  "py_type_name JNull = ''NoneType''"
| "py_type_name (JBool _) = ''bool''"
| "py_type_name (JInt _) = ''int''"
| "py_type_name (JStr _) = ''str''"
| "py_type_name (JList _) = ''list''"
| "py_type_name (JObj _) = ''dict''"

section \<open>Expression resolver\<close>

text \<open>
  \<open>_resolve_inputs\<close> in \<open>action_executor_service.py\<close>. The pattern is
  \<open>\{\{([\w.\[\]'" ]+)\}\}\<close>, applied with \<open>re.match\<close>: it is anchored at the start of
  the value and not at its end. The class holds no closing brace, so the greedy group is
  the longest run of class characters after the opening braces, and the match succeeds
  exactly when that run is not empty and the two closing braces follow it. \<open>\w\<close> is read
  on ASCII: letters, digits and the underscore.
\<close>

definition is_word_char :: "char \<Rightarrow> bool" where
  "is_word_char c =
     (let n = (of_char c :: nat) in
        (48 \<le> n \<and> n \<le> 57) \<or> (65 \<le> n \<and> n \<le> 90) \<or> (97 \<le> n \<and> n \<le> 122) \<or> n = 95)"

definition is_path_char :: "char \<Rightarrow> bool" where
  "is_path_char c =
     (is_word_char c \<or> c = CHR ''.'' \<or> c = CHR ''['' \<or> c = CHR '']'' \<or>
      c = CHR 0x27 \<or> c = CHR 0x22 \<or> c = CHR '' '')"

text \<open>\<open>placeholder_pattern.match(value)\<close>: the text of group 1, or \<open>None\<close>.\<close>

fun placeholder_match :: "string \<Rightarrow> string option" where
  "placeholder_match (a # b # rest) =
     (if a = CHR ''{'' \<and> b = CHR ''{'' then
        (let body = takeWhile is_path_char rest;
             after = dropWhile is_path_char rest
         in if body \<noteq> [] \<and> take 2 after = ''}}'' then Some body else None)
      else None)"
| "placeholder_match _ = None"

text \<open>\<open>re.fullmatch\<close> of the same pattern: the value is a placeholder token and nothing else.\<close>

definition is_single_placeholder :: "string \<Rightarrow> bool" where
  "is_single_placeholder v =
     (case placeholder_match v of
        None \<Rightarrow> False
      | Some body \<Rightarrow> v = ''{{'' @ body @ ''}}'')"

definition is_space :: "char \<Rightarrow> bool" where
  "is_space c = (c = CHR '' '' \<or> (9 \<le> (of_char c :: nat) \<and> (of_char c :: nat) \<le> 13))"

definition strip :: "string \<Rightarrow> string" where
  "strip s = rev (dropWhile is_space (rev (dropWhile is_space s)))"

text \<open>\<open>s.split(c)\<close> for a one-character separator: one more piece than separators.\<close>

fun split_on :: "char \<Rightarrow> string \<Rightarrow> string list" where
  "split_on c [] = [[]]"
| "split_on c (x # xs) =
     (if x = c then [] # split_on c xs
      else (case split_on c xs of
              [] \<Rightarrow> [[x]]
            | w # ws \<Rightarrow> (x # w) # ws))"

text \<open>
  The key parts the two nested \<open>for\<close> loops visit: quotes and closing brackets removed,
  split at opening brackets, each part split at dots, empty parts skipped.
\<close>

definition path_keys :: "string \<Rightarrow> string list" where
  "path_keys path =
     filter (\<lambda>k. k \<noteq> [])
       (concat (map (split_on CHR ''.'')
          (split_on CHR ''[''
             (filter (\<lambda>c. c \<noteq> CHR 0x27 \<and> c \<noteq> CHR 0x22 \<and> c \<noteq> CHR '']'') path))))"

text \<open>
  \<open>resolved_value = resolved_value.get(key_part)\<close>: a dictionary answers with the value
  or \<open>None\<close>; any other value has no \<open>get\<close> and Python raises \<open>AttributeError\<close>.
\<close>

definition no_attribute_get :: "json \<Rightarrow> exn" where
  "no_attribute_get v =
     AttributeError
       ([CHR 0x27] @ py_type_name v @ [CHR 0x27] @ '' object has no attribute '' @
        [CHR 0x27] @ ''get'' @ [CHR 0x27])"

definition py_get :: "json \<Rightarrow> string \<Rightarrow> exn + json" where
  "py_get v k =
     (case v of
        JObj d \<Rightarrow> Inr (case dict_get d k of None \<Rightarrow> JNull | Some x \<Rightarrow> x)
      | _ \<Rightarrow> Inl (no_attribute_get v))"

fun walk :: "json \<Rightarrow> string list \<Rightarrow> exn + json" where
  "walk v [] = Inr v"
| "walk v (k # ks) = (case py_get v k of Inl e \<Rightarrow> Inl e | Inr v' \<Rightarrow> walk v' ks)"

text \<open>
  One entry of the \<open>for key, value in config.items()\<close> loop: the value stored under the
  key. The \<open>except (KeyError, IndexError, TypeError)\<close> clause catches none of the
  exceptions the \<open>try\<close> body can raise (\<open>get\<close> on a dictionary with a string key raises
  nothing, \<open>get\<close> on anything else raises \<open>AttributeError\<close>), so an \<open>AttributeError\<close>
  leaves the function as it is.
\<close>

definition resolve_value :: "json \<Rightarrow> json \<Rightarrow> exn + json" where
  "resolve_value execution_data val =
     (case val of
        JStr s \<Rightarrow>
          (case placeholder_match s of
             Some body \<Rightarrow>
               (let path = strip body in
                  case walk execution_data (path_keys path) of
                    Inl e \<Rightarrow> Inl e
                  | Inr JNull \<Rightarrow> Inl (UnresolvedPlaceholder s path)
                  | Inr v \<Rightarrow> Inr v)
           | None \<Rightarrow> Inr val)
      | _ \<Rightarrow> Inr val)"

fun resolve_entries :: "json \<Rightarrow> dict \<Rightarrow> dict \<Rightarrow> exn + dict" where
  "resolve_entries execution_data resolved_config [] = Inr resolved_config"
| "resolve_entries execution_data resolved_config ((key, val) # rest) =
     (case resolve_value execution_data val of
        Inl e \<Rightarrow> Inl e
      | Inr v \<Rightarrow> resolve_entries execution_data (dict_set key v resolved_config) rest)"

definition resolve_inputs :: "dict \<Rightarrow> json \<Rightarrow> exn + dict" where
  "resolve_inputs config execution_data = resolve_entries execution_data [] config"

section \<open>The workflow graph\<close>

text \<open>
  \<open>models/workflow.py\<close>: \<open>nodes\<close> is a list of \<open>{'id', 'type', 'config'}\<close> and \<open>edges\<close> a
  list of \<open>{'source', 'target', 'label'}\<close>. The executor reads an edge's label with
  \<open>edge.get('label')\<close>, so a label may be missing. \<open>wf_user_id\<close> and \<open>wf_sca_address\<close>
  are \<open>workflow.user_id\<close> and \<open>workflow.user.sca_address\<close>. \<open>wf_state\<close> is the instance
  attribute \<open>state\<close>, which the event checkers read and \<open>_check_polling_event\<close> assigns:
  the \<open>Workflow\<close> class and its bases declare no column, property or attribute of that
  name, so a workflow as loaded has none (\<open>None\<close> here) and carries one only after an
  assignment (\<open>Some\<close>).
\<close>

record node =
  node_id :: string
  node_type :: string
  node_config :: dict

record edge =
  edge_source :: string
  edge_target :: string
  edge_label :: "string option"

record workflow =
  wf_user_id :: nat
  wf_sca_address :: string
  trigger_config :: dict
  wf_state :: "json option"
  nodes :: "node list"
  edges :: "edge list"

text \<open>
  \<open>Workflow.start_node_id\<close>: \<open>None\<close> for an empty node list; otherwise the id of the first
  node, in list order, that is not in \<open>target_ids\<close>; when the loop finds none, the id of
  \<open>nodes[0]\<close>.
\<close>

definition target_ids :: "workflow \<Rightarrow> string set" where
  "target_ids w = set (map edge_target (edges w))"

fun first_non_target :: "string set \<Rightarrow> node list \<Rightarrow> string option" where
  "first_non_target T [] = None"
| "first_non_target T (n # ns) =
     (if node_id n \<notin> T then Some (node_id n) else first_non_target T ns)"

definition start_node_id :: "workflow \<Rightarrow> string option" where
  "start_node_id w =
     (case nodes w of
        [] \<Rightarrow> None
      | n0 # _ \<Rightarrow>
          (case first_non_target (target_ids w) (nodes w) of
             Some i \<Rightarrow> Some i
           | None \<Rightarrow> Some (node_id n0)))"

text \<open>The nodes that are never the target of an edge, in list order.\<close>

definition entry_candidates :: "workflow \<Rightarrow> node list" where
  "entry_candidates w = filter (\<lambda>n. node_id n \<notin> target_ids w) (nodes w)"

section \<open>Grant resolver\<close>

text \<open>
  \<open>SessionKeyGrant\<close> with the columns the resolver reads. \<open>permissions\<close> is the JSON
  object of the column (\<open>allowed_targets\<close>, \<open>spend_limits\<close>); times are seconds.
\<close>

record grant =
  grant_id :: nat
  grant_user_id :: nat
  public_address :: string
  expires_at :: int
  permissions :: dict

text \<open>
  The text PostgreSQL gives for a JSON value (the \<open>->>\<close> operator behind \<open>.astext\<close>): a
  string as it is, \<open>null\<close> as SQL NULL, anything else in JSON notation with \<open>", "\<close> between
  the elements. Strings are taken to need no escaping.
\<close>

fun nat_digits :: "nat \<Rightarrow> string" where
  "nat_digits n =
     (if n < 10 then [char_of (48 + n)]
      else nat_digits (n div 10) @ [char_of (48 + n mod 10)])"

definition int_text :: "int \<Rightarrow> string" where
  "int_text i = (if i < 0 then CHR ''-'' # nat_digits (nat (- i)) else nat_digits (nat i))"

definition quoted :: "string \<Rightarrow> string" where
  "quoted s = [CHR 0x22] @ s @ [CHR 0x22]"

fun join_comma :: "string list \<Rightarrow> string" where
  "join_comma [] = []"
| "join_comma [x] = x"
| "join_comma (x # y # ys) = x @ '', '' @ join_comma (y # ys)"

primrec json_text :: "json \<Rightarrow> string" where
  "json_text JNull = ''null''"
| "json_text (JBool b) = (if b then ''true'' else ''false'')"
| "json_text (JInt n) = int_text n"
| "json_text (JStr s) = quoted s"
| "json_text (JList xs) = ''['' @ join_comma (map json_text xs) @ '']''"
| "json_text (JObj d) =
     ''{'' @ join_comma (map (\<lambda>(k, t). quoted k @ '': '' @ t) (map (map_prod id json_text) d)) @ ''}''"

definition astext :: "dict \<Rightarrow> string \<Rightarrow> string option" where
  "astext d k =
     (case dict_get d k of
        None \<Rightarrow> None
      | Some JNull \<Rightarrow> None
      | Some (JStr s) \<Rightarrow> Some s
      | Some v \<Rightarrow> Some (json_text v))"

text \<open>
  SQLAlchemy's \<open>contains\<close> on a text expression is \<open>LIKE '%' || target || '%'\<close>: the
  target occurs somewhere in the text. (A \<open>%\<close> or \<open>_\<close> inside the target would act as a
  wildcard; addresses and asset symbols hold none.)
\<close>

fun contains :: "string \<Rightarrow> string \<Rightarrow> bool" where
  "contains [] needle = (needle = [])"
| "contains (c # cs) needle =
     (take (length needle) (c # cs) = needle \<or> contains cs needle)"

text \<open>The \<open>where\<close> clause of the query in \<open>find_valid_grant_for_action\<close>.\<close>

definition grant_matches :: "int \<Rightarrow> nat \<Rightarrow> string \<Rightarrow> grant \<Rightarrow> bool" where
  "grant_matches now uid target_contract g =
     (grant_user_id g = uid \<and> expires_at g > now \<and>
      (case astext (permissions g) ''allowed_targets'' of
         None \<Rightarrow> False
       | Some txt \<Rightarrow> contains txt target_contract))"

text \<open>
  \<open>_check_spend_limits\<close>. No \<open>spend_limits\<close> key: allow. \<open>spend_limits.get\<close> on a value that
  is not a dictionary raises \<open>AttributeError\<close>, which the \<open>except (KeyError, TypeError,
  ValueError)\<close> clause lets through. A ceiling that is \<open>None\<close> or missing is no ceiling; a
  number is compared (\<open>True\<close> and \<open>False\<close> are 1 and 0 in Python); comparing with
  anything else raises \<open>TypeError\<close>, which the clause turns into a denial. The daily limit
  is read and only logged.
\<close>

definition check_spend_limits :: "grant \<Rightarrow> int \<Rightarrow> exn + bool" where
  "check_spend_limits g val =
     (case dict_get (permissions g) ''spend_limits'' of
        None \<Rightarrow> Inr True
      | Some spend_limits \<Rightarrow>
          (case py_get spend_limits ''max_spend_per_tx'' of
             Inl e \<Rightarrow> Inl e
           | Inr max_per_tx \<Rightarrow>
               (case max_per_tx of
                  JNull \<Rightarrow> Inr True
                | JInt c \<Rightarrow> Inr (\<not> val > c)
                | JBool b \<Rightarrow> Inr (\<not> val > (if b then 1 else 0))
                | _ \<Rightarrow> Inr False)))"

text \<open>The \<open>for grant in result.scalars().all()\<close> loop: the first candidate within limits.\<close>

fun first_within_limits :: "grant list \<Rightarrow> int \<Rightarrow> exn + grant option" where
  "first_within_limits [] val = Inr None"
| "first_within_limits (g # gs) val =
     (case check_spend_limits g val of
        Inl e \<Rightarrow> Inl e
      | Inr True \<Rightarrow> Inr (Some g)
      | Inr False \<Rightarrow> first_within_limits gs val)"

text \<open>
  \<open>find_valid_grant_for_action\<close>: \<open>db\<close> is the grants table in the order the query
  returns its rows, \<open>now\<close> is \<open>datetime.utcnow()\<close>.
\<close>

definition find_valid_grant_for_action ::
  "grant list \<Rightarrow> int \<Rightarrow> nat \<Rightarrow> string \<Rightarrow> int \<Rightarrow> exn + grant option" where
  "find_valid_grant_for_action db now uid target_contract val =
     first_within_limits (filter (grant_matches now uid target_contract) db) val"

text \<open>What the permission structure declares, read as the docstring lays it out.\<close>

definition declared_targets :: "grant \<Rightarrow> json list" where
  "declared_targets g =
     (case dict_get (permissions g) ''allowed_targets'' of
        Some (JList xs) \<Rightarrow> xs
      | _ \<Rightarrow> [])"

definition declares_target :: "grant \<Rightarrow> string \<Rightarrow> bool" where
  "declares_target g target_contract = (JStr target_contract \<in> set (declared_targets g))"

definition declared_ceiling :: "grant \<Rightarrow> json option" where
  "declared_ceiling g =
     (case dict_get (permissions g) ''spend_limits'' of
        Some (JObj sl) \<Rightarrow>
          (case dict_get sl ''max_spend_per_tx'' of
             None \<Rightarrow> None
           | Some JNull \<Rightarrow> None
           | Some c \<Rightarrow> Some c)
      | _ \<Rightarrow> None)"

section \<open>Provider manager and circuit breaker\<close>

text \<open>
  The class of an exception and Python's \<open>issubclass\<close> on the built-in hierarchy, as far
  as the exceptions of this development go.
\<close>

fun class_name :: "exn \<Rightarrow> string" where
  "class_name (ValueError _) = ''ValueError''"
| "class_name (UnresolvedPlaceholder _ _) = ''ValueError''"
| "class_name (AttributeError _) = ''AttributeError''"
| "class_name (KeyError _) = ''KeyError''"
| "class_name (TypeError _) = ''TypeError''"
| "class_name (NameError _) = ''NameError''"
| "class_name (NotImplementedError _) = ''NotImplementedError''"
| "class_name (SigningException _) = ''SigningException''"
| "class_name (CircuitBreakerError _) = ''CircuitBreakerError''"
| "class_name (BlockchainServiceException _) = ''BlockchainServiceException''"
| "class_name (ProviderError _) = ''ProviderError''"

definition base_classes :: "string \<Rightarrow> string list" where
  "base_classes c =
     (if c = ''NotImplementedError'' then [''RuntimeError'', ''Exception'', ''BaseException'']
      else if c = ''KeyError'' then [''LookupError'', ''Exception'', ''BaseException'']
      else [''Exception'', ''BaseException''])"

definition is_subclass :: "string \<Rightarrow> string \<Rightarrow> bool" where
  "is_subclass c base = (c = base \<or> base \<in> set (base_classes c))"

text \<open>
  What \<open>BlockchainServiceManager.__init__\<close> hands to \<open>pybreaker\<close>. An entry of \<open>exclude\<close>
  is an exception class, a callable on the exception, or anything else (the source
  passes a tuple of classes as the one entry of the list). A listener is an object with
  the methods of \<open>CircuitBreakerListener\<close> (\<open>before_call\<close>, \<open>failure\<close>, \<open>success\<close>,
  \<open>state_change\<close>), or anything else (the source registers the bound method
  \<open>self._on_breaker_state_change\<close>). \<open>has_tornado\<close> says whether the Tornado package is
  installed: \<open>call_async\<close> is built on \<open>tornado.gen\<close>.
\<close>

datatype exclusion =
    ExceptionClass string
  | ExceptionPredicate "exn \<Rightarrow> bool"
  | ExceptionTuple "string list"

datatype listener = ListenerObject | BoundMethod string

record breaker_settings =
  fail_max :: nat
  reset_timeout :: int
  exclude :: "exclusion list"
  listeners :: "listener list"
  has_tornado :: bool

text \<open>
  \<open>__init__\<close>, lines 26 to 31: the threshold and the recovery timeout come from the
  settings; \<open>exclude=[(NotImplementedError,)]\<close>; \<open>add_listener(self._on_breaker_state_change)\<close>.
\<close>

definition manager_breaker :: "nat \<Rightarrow> int \<Rightarrow> bool \<Rightarrow> breaker_settings" where
  "manager_breaker threshold recovery tornado =
     \<lparr> fail_max = threshold, reset_timeout = recovery,
       exclude = [ExceptionTuple [''NotImplementedError'']],
       listeners = [BoundMethod ''_on_breaker_state_change''],
       has_tornado = tornado \<rparr>"

text \<open>
  \<open>CircuitBreaker.is_system_error\<close> of \<open>pybreaker\<close>: an entry whose type is \<open>type\<close> excludes
  the instances of that class and of its subclasses, a callable entry excludes the
  exceptions it answers true for, and any other entry is passed over. A tuple is neither
  a class nor callable.
\<close>

definition excludes :: "exclusion \<Rightarrow> exn \<Rightarrow> bool" where
  "excludes x e =
     (case x of
        ExceptionClass c \<Rightarrow> is_subclass (class_name e) c
      | ExceptionPredicate p \<Rightarrow> p e
      | ExceptionTuple _ \<Rightarrow> False)"

definition is_system_error :: "exclusion list \<Rightarrow> exn \<Rightarrow> bool" where
  "is_system_error exclusions e = (\<not> list_ex (\<lambda>x. excludes x e) exclusions)"

text \<open>
  Before the wrapped function is called, the breaker calls \<open>listener.before_call(...)\<close> on
  every registered listener; a listener without that method raises \<open>AttributeError\<close>
  there.
\<close>

definition not_a_listener :: exn where
  "not_a_listener =
     AttributeError
       ([CHR 0x27] @ ''function'' @ [CHR 0x27] @ '' object has no attribute '' @
        [CHR 0x27] @ ''before_call'' @ [CHR 0x27])"

definition listener_error :: "listener list \<Rightarrow> exn option" where
  "listener_error ls =
     (case find (\<lambda>l. l \<noteq> ListenerObject) ls of
        None \<Rightarrow> None
      | Some _ \<Rightarrow> Some not_a_listener)"

datatype breaker = BreakerClosed nat | BreakerOpen int

text \<open>
  \<open>breaker.call_async(func, ...)\<close> as \<open>pybreaker\<close> runs it; the package is a dependency of
  the repository. A closed breaker carries its count of consecutive failures, an open
  one the time it opened. \<open>outcome\<close> is what the wrapped call gives if it is invoked; the
  result says whether it was invoked. Without Tornado the decorator \<open>gen.coroutine\<close> is
  an unbound name. An open breaker whose timeout has not elapsed raises
  \<open>CircuitBreakerError\<close>; otherwise the listeners are notified, then the function is
  called. A success, and a failure that is not a system error, reset the counter and
  close the breaker. A system error is counted; at \<open>fail_max\<close>, and at any failure of
  the trial call of an open breaker whose timeout has elapsed, the breaker opens and
  \<open>CircuitBreakerError\<close> is raised in place of the failure.
\<close>

definition breaker_call ::
  "breaker_settings \<Rightarrow> int \<Rightarrow> breaker \<Rightarrow> exn + 'a \<Rightarrow> (exn + 'a) \<times> breaker \<times> bool" where
  "breaker_call cfg now br outcome =
     (if \<not> has_tornado cfg then
        (Inl (name_error ''gen''), br, False)
      else if (case br of BreakerOpen t0 \<Rightarrow> now < t0 + reset_timeout cfg
               | BreakerClosed _ \<Rightarrow> False) then
        (Inl (CircuitBreakerError ''Timeout not elapsed yet, circuit breaker still open''),
         br, False)
      else
        (case listener_error (listeners cfg) of
           Some e \<Rightarrow> (Inl e, br, False)
         | None \<Rightarrow>
             (case outcome of
                Inr v \<Rightarrow> (Inr v, BreakerClosed 0, True)
              | Inl e \<Rightarrow>
                  if \<not> is_system_error (exclude cfg) e then (Inl e, BreakerClosed 0, True)
                  else
                    (case br of
                       BreakerOpen _ \<Rightarrow>
                         (Inl (CircuitBreakerError ''Trial call failed, circuit breaker opened''),
                          BreakerOpen now, True)
                     | BreakerClosed c \<Rightarrow>
                         if fail_max cfg \<le> Suc c then
                           (Inl (CircuitBreakerError
                                   ''Failures threshold reached, circuit breaker opened''),
                            BreakerOpen now, True)
                         else (Inl e, BreakerClosed (Suc c), True)))))"

text \<open>
  \<open>_execute_with_breaker\<close>: the result of the breaker call; on \<open>CircuitBreakerError\<close> the
  same operation on the fallback adapter, and a \<open>BlockchainServiceException\<close> when that
  fails too; any other exception is logged and raised again. \<open>primary\<close> and \<open>fallback\<close>
  are what the two adapters give for this call if invoked.
\<close>

record 'a call_result =
  returned :: "exn + 'a"
  breaker_after :: breaker
  primary_invoked :: bool
  fallback_invoked :: bool

definition execute_with_breaker ::
  "breaker_settings \<Rightarrow> int \<Rightarrow> breaker \<Rightarrow> exn + 'a \<Rightarrow> exn + 'a \<Rightarrow> 'a call_result" where
  "execute_with_breaker cfg now br primary fallback =
     (case breaker_call cfg now br primary of
        (Inr v, br', called) \<Rightarrow>
          \<lparr> returned = Inr v, breaker_after = br', primary_invoked = called,
            fallback_invoked = False \<rparr>
      | (Inl e, br', called) \<Rightarrow>
          (case e of
             CircuitBreakerError _ \<Rightarrow>
               (case fallback of
                  Inr r \<Rightarrow>
                    \<lparr> returned = Inr r, breaker_after = br', primary_invoked = called,
                      fallback_invoked = True \<rparr>
                | Inl fallback_error \<Rightarrow>
                    \<lparr> returned = Inl (BlockchainServiceException
                                        ''Both primary and fallback services failed.''),
                      breaker_after = br', primary_invoked = called, fallback_invoked = True \<rparr>)
           | _ \<Rightarrow>
               \<lparr> returned = Inl e, breaker_after = br', primary_invoked = called,
                 fallback_invoked = False \<rparr>))"

text \<open>
  A series of calls through the manager, each with its time and the adapters' answers:
  the results in order, and the breaker after the last of them.
\<close>

fun run_calls ::
  "breaker_settings \<Rightarrow> breaker \<Rightarrow> (int \<times> (exn + 'a) \<times> (exn + 'a)) list \<Rightarrow>
     'a call_result list" where
  "run_calls cfg br [] = []"
| "run_calls cfg br ((t, p, f) # cs) =
     execute_with_breaker cfg t br p f #
     run_calls cfg (breaker_after (execute_with_breaker cfg t br p f)) cs"

fun breaker_after_calls ::
  "breaker_settings \<Rightarrow> breaker \<Rightarrow> (int \<times> (exn + 'a) \<times> (exn + 'a)) list \<Rightarrow> breaker" where
  "breaker_after_calls cfg br [] = br"
| "breaker_after_calls cfg br ((t, p, f) # cs) =
     breaker_after_calls cfg (breaker_after (execute_with_breaker cfg t br p f)) cs"

section \<open>Trigger evaluator\<close>

text \<open>
  Reading \<open>workflow.state\<close>: the attribute, or \<open>AttributeError\<close> when the object has none.
\<close>

definition no_attribute_state :: exn where
  "no_attribute_state =
     AttributeError
       ([CHR 0x27] @ ''Workflow'' @ [CHR 0x27] @ '' object has no attribute '' @
        [CHR 0x27] @ ''state'' @ [CHR 0x27])"

definition read_state :: "workflow \<Rightarrow> exn + json" where
  "read_state w = (case wf_state w of None \<Rightarrow> Inl no_attribute_state | Some s \<Rightarrow> Inr s)"

text \<open>
  \<open>RssCheckerService.check\<close>. \<open>parse\<close> is \<open>feedparser.parse\<close>; a feed is its \<open>bozo\<close> flag
  and the timestamps of its entries (whole seconds). The second statement of the method
  is \<open>state = workflow.state or {}\<close>: it reads the attribute and replaces a falsy state by
  the empty dictionary.
\<close>

record feed =
  bozo :: bool
  entries :: "int list"

definition state_or_empty :: "json \<Rightarrow> json" where
  "state_or_empty st = (if truthy st then st else JObj [])"

definition rss_check :: "(json \<Rightarrow> exn + feed) \<Rightarrow> workflow \<Rightarrow> exn + (bool \<times> json)" where
  "rss_check parse w =
     (case read_state w of
        Inl e \<Rightarrow> Inl e
      | Inr s \<Rightarrow>
          (let config = trigger_config w;
               st = state_or_empty s;
               params = (case dict_get config ''params'' of None \<Rightarrow> JObj [] | Some p \<Rightarrow> p)
           in case py_get params ''feed_url'' of
                Inl e \<Rightarrow> Inl e
              | Inr feed_url \<Rightarrow>
                  if \<not> truthy feed_url then Inr (False, st)
                  else
                    (case st of
                       JObj d \<Rightarrow>
                         (let last_entry_timestamp =
                                (case dict_get d ''last_entry_timestamp'' of
                                   None \<Rightarrow> JInt 0 | Some t \<Rightarrow> t)
                          in case parse feed_url of
                               Inl e \<Rightarrow> Inr (False, st)
                             | Inr fd \<Rightarrow>
                                 if bozo fd then Inr (False, st)
                                 else if entries fd = [] then Inr (False, st)
                                 else
                                   (let latest = Max (set (entries fd)) in
                                      case last_entry_timestamp of
                                        JInt l \<Rightarrow>
                                          if latest > l
                                          then Inr (True, JObj [(''last_entry_timestamp'',
                                                                 JInt latest)])
                                          else Inr (False, st)
                                      | JBool b \<Rightarrow>
                                          if latest > (if b then 1 else 0)
                                          then Inr (True, JObj [(''last_entry_timestamp'',
                                                                 JInt latest)])
                                          else Inr (False, st)
                                      | _ \<Rightarrow> Inr (False, st)))
                     | _ \<Rightarrow> Inl (no_attribute_get st))))"

text \<open>
  \<open>EvmCheckerService.check\<close> when no Etherscan key is configured: its first statement is
  \<open>return False, workflow.state\<close>.
\<close>

definition evm_check_without_key :: "workflow \<Rightarrow> exn + (bool \<times> json)" where
  "evm_check_without_key w =
     (case read_state w of Inl e \<Rightarrow> Inl e | Inr s \<Rightarrow> Inr (False, s))"

text \<open>
  \<open>_check_polling_event\<close>: the checker is chosen by \<open>config.get("source")\<close>; the Twitter
  checker may be missing. The state the checker returns is assigned to \<open>workflow.state\<close>
  only under \<open>if is_triggered\<close>. An exception of the checker leaves the method (its
  caller \<open>check_workflow\<close> logs it and answers \<open>False\<close>).
\<close>

type_synonym checker = "workflow \<Rightarrow> exn + (bool \<times> json)"

record checkers =
  rss_checker :: checker
  twitter_checker :: "checker option"
  evm_checker :: checker

definition checker_for :: "checkers \<Rightarrow> workflow \<Rightarrow> exn + checker option" where
  "checker_for cks w =
     (case dict_get (trigger_config w) ''source'' of
        None \<Rightarrow> Inr None
      | Some (JStr src) \<Rightarrow>
          Inr (if src = ''rss'' then Some (rss_checker cks)
               else if src = ''twitter'' then twitter_checker cks
               else if src = ''evm'' then Some (evm_checker cks)
               else None)
      | Some (JList _) \<Rightarrow> Inl (TypeError ''unhashable type: list'')
      | Some (JObj _) \<Rightarrow> Inl (TypeError ''unhashable type: dict'')
      | Some _ \<Rightarrow> Inr None)"

definition check_polling_event :: "checkers \<Rightarrow> workflow \<Rightarrow> exn + (bool \<times> workflow)" where
  "check_polling_event cks w =
     (case checker_for cks w of
        Inl e \<Rightarrow> Inl e
      | Inr None \<Rightarrow> Inr (False, w)
      | Inr (Some checker_func) \<Rightarrow>
          (case checker_func w of
             Inl e \<Rightarrow> Inl e
           | Inr (is_triggered, new_state) \<Rightarrow>
               if is_triggered then Inr (True, w\<lparr> wf_state := Some new_state \<rparr>)
               else Inr (False, w)))"

text \<open>
  The checkers as \<open>TriggerCheckerService.__init__\<close> holds them when neither a Twitter
  token nor an Etherscan key is configured; \<open>parse\<close> is what the feed gives.
\<close>

definition service_checkers :: "(json \<Rightarrow> exn + feed) \<Rightarrow> checkers" where
  "service_checkers parse =
     \<lparr> rss_checker = rss_check parse, twitter_checker = None,
       evm_checker = evm_check_without_key \<rparr>"

section \<open>Quoting, signing and executing an action\<close>

text \<open>
  Quotes and transaction results of \<open>blockchain/base.py\<close>, with the attributes the
  executor reads and the dictionary \<open>quote.dict()\<close> gives:
  \<open>SwapQuote quote_id from_amount route dict\<close>, \<open>BridgeQuote quote_id amount dict\<close>,
  \<open>StakingQuote quote_id amount staking_pool_address dict\<close>,
  \<open>LendingQuote quote_id amount lending_pool_address dict\<close>.
\<close>

datatype quote =
    SwapQuote string string "dict list" dict
  | BridgeQuote string string dict
  | StakingQuote string string string dict
  | LendingQuote string string string dict

fun quote_id_of :: "quote \<Rightarrow> string" where
  "quote_id_of (SwapQuote qid _ _ _) = qid"
| "quote_id_of (BridgeQuote qid _ _) = qid"
| "quote_id_of (StakingQuote qid _ _ _) = qid"
| "quote_id_of (LendingQuote qid _ _ _) = qid"

fun quote_dict :: "quote \<Rightarrow> dict" where
  "quote_dict (SwapQuote _ _ _ d) = d"
| "quote_dict (BridgeQuote _ _ d) = d"
| "quote_dict (StakingQuote _ _ _ d) = d"
| "quote_dict (LendingQuote _ _ _ d) = d"

text \<open>
  \<open>amount_to_check\<close>: \<open>quote.from_amount\<close> when the quote has that attribute, else
  \<open>quote.amount\<close>; each of the four quote classes has one of the two.
\<close>

fun amount_to_check :: "quote \<Rightarrow> string" where
  "amount_to_check (SwapQuote _ from_amount _ _) = from_amount"
| "amount_to_check (BridgeQuote _ amount _) = amount"
| "amount_to_check (StakingQuote _ amount _ _) = amount"
| "amount_to_check (LendingQuote _ amount _ _) = amount"

record tx_result =
  tx_hash :: string
  tx_status :: string

text \<open>
  \<open>int(s)\<close> on a string: optional surrounding whitespace, an optional sign, then decimal
  digits, which single underscores may separate (\<open>int("1_000")\<close> is 1000; a leading, a
  trailing or a doubled underscore is refused). More than 4300 digits are refused
  (Python's default limit for the conversion). \<open>None\<close> stands for \<open>ValueError\<close>. Digits
  outside ASCII are left out.
\<close>

definition is_digit :: "char \<Rightarrow> bool" where
  "is_digit c = (48 \<le> (of_char c :: nat) \<and> (of_char c :: nat) \<le> 57)"

definition digits_value :: "string \<Rightarrow> nat" where
  "digits_value ds = foldl (\<lambda>acc c. 10 * acc + (of_char c - 48)) 0 ds"

definition int_literal :: "string \<Rightarrow> nat option" where
  "int_literal ds =
     (if ds \<noteq> [] \<and> is_digit (hd ds) \<and> is_digit (last ds) \<and>
         list_all (\<lambda>c. is_digit c \<or> c = CHR ''_'') ds \<and> \<not> contains ds ''__'' \<and>
         length (filter is_digit ds) \<le> 4300
      then Some (digits_value (filter is_digit ds))
      else None)"

definition py_int :: "string \<Rightarrow> int option" where
  "py_int s =
     (case strip s of
        [] \<Rightarrow> None
      | c # cs \<Rightarrow>
          if c = CHR ''-'' then map_option (\<lambda>n. - int n) (int_literal cs)
          else if c = CHR ''+'' then map_option int (int_literal cs)
          else map_option int (int_literal (c # cs)))"

text \<open>
  The collaborators \<open>_get_quote_for_action\<close> and \<open>_sign_and_execute\<close> are handed
  (\<open>blockchain_manager\<close>, \<open>signing_service\<close>): the provider's quote and execute operations
  and the signing service. \<open>execute_action\<close> is \<open>execute_swap\<close>, \<open>execute_bridge\<close>,
  \<open>execute_staking\<close> or \<open>execute_supply\<close>, chosen by its action type; \<open>sign_message\<close> is
  \<open>get_signer_for_grant\<close> followed by \<open>signer.sign_message(...).signature.hex()\<close>.
\<close>

record env =
  get_swap_quote :: "dict \<Rightarrow> string \<Rightarrow> exn + quote"
  get_bridge_quote :: "dict \<Rightarrow> string \<Rightarrow> exn + quote"
  get_staking_quote :: "dict \<Rightarrow> string \<Rightarrow> exn + quote"
  get_lending_quote :: "dict \<Rightarrow> string \<Rightarrow> exn + quote"
  find_grant :: "nat \<Rightarrow> json \<Rightarrow> int \<Rightarrow> exn + grant option"
  sign_message :: "grant \<Rightarrow> string \<Rightarrow> exn + string"
  execute_action :: "string \<Rightarrow> string \<Rightarrow> string \<Rightarrow> string \<Rightarrow> exn + tx_result"

text \<open>The calls made on the provider and the signing service.\<close>

datatype call =
    FindGrant json int "exn + grant option"
  | Sign grant string "exn + string"
  | Execute string string string string

definition cfg_get :: "dict \<Rightarrow> string \<Rightarrow> json" where
  "cfg_get config k = (case dict_get config k of None \<Rightarrow> JNull | Some v \<Rightarrow> v)"

text \<open>\<open>amount = str(config.get('amount'))\<close> is falsy only for the empty string.\<close>

definition amount_truthy :: "dict \<Rightarrow> bool" where
  "amount_truthy config = (cfg_get config ''amount'' \<noteq> JStr [])"

definition handle_swap_quote :: "env \<Rightarrow> dict \<Rightarrow> string \<Rightarrow> exn + quote" where
  "handle_swap_quote en config sca_address =
     (if truthy (cfg_get config ''from_asset'') \<and> truthy (cfg_get config ''to_asset'') \<and>
         amount_truthy config \<and> truthy (cfg_get config ''from_chain'') \<and>
         truthy (cfg_get config ''to_chain'')
      then get_swap_quote en config sca_address
      else Inl (ValueError ''Swap action config is missing required fields.''))"

definition handle_bridge_quote :: "env \<Rightarrow> dict \<Rightarrow> string \<Rightarrow> exn + quote" where
  "handle_bridge_quote en config sca_address =
     (if truthy (cfg_get config ''asset'') \<and> amount_truthy config \<and>
         truthy (cfg_get config ''from_chain'') \<and> truthy (cfg_get config ''to_chain'')
      then get_bridge_quote en config sca_address
      else Inl (ValueError ''Bridge action config is missing required fields.''))"

definition handle_staking_quote :: "env \<Rightarrow> dict \<Rightarrow> string \<Rightarrow> exn + quote" where
  "handle_staking_quote en config sca_address =
     (if truthy (cfg_get config ''asset'') \<and> amount_truthy config \<and>
         truthy (cfg_get config ''from_chain'') \<and> truthy (cfg_get config ''staking_pool'')
      then get_staking_quote en config sca_address
      else Inl (ValueError ''Staking action config is missing required fields.''))"

definition handle_lending_quote :: "env \<Rightarrow> dict \<Rightarrow> string \<Rightarrow> exn + quote" where
  "handle_lending_quote en config sca_address =
     (if truthy (cfg_get config ''asset'') \<and> amount_truthy config \<and>
         truthy (cfg_get config ''from_chain'') \<and> truthy (cfg_get config ''lending_pool'')
      then get_lending_quote en config sca_address
      else Inl (ValueError ''Lending supply action config is missing required fields.''))"

text \<open>
  \<open>_get_quote_for_action\<close>: the quote, the message to sign and the target contract.
  Reading \<open>route\<close>, \<open>staking_pool_address\<close> or \<open>lending_pool_address\<close> from a quote of
  another class raises \<open>AttributeError\<close>; a first route step without \<open>toTokenAddress\<close>
  raises \<open>KeyError\<close>.
\<close>

definition get_quote_for_action ::
  "env \<Rightarrow> string \<Rightarrow> dict \<Rightarrow> string \<Rightarrow> exn + (quote \<times> string \<times> json)" where
  "get_quote_for_action en action_type config sca_address =
     (if action_type = ''swap'' then
        (case handle_swap_quote en config sca_address of
           Inl e \<Rightarrow> Inl e
         | Inr q \<Rightarrow>
             (case q of
                SwapQuote qid _ route _ \<Rightarrow>
                  (case route of
                     [] \<Rightarrow> Inr (q, qid, cfg_get config ''from_asset'')
                   | step # _ \<Rightarrow>
                       (case dict_get step ''toTokenAddress'' of
                          None \<Rightarrow> Inl (KeyError ''toTokenAddress'')
                        | Some t \<Rightarrow> Inr (q, qid, t)))
              | _ \<Rightarrow> Inl (AttributeError ''quote has no attribute route'')))
      else if action_type = ''bridge'' then
        (case handle_bridge_quote en config sca_address of
           Inl e \<Rightarrow> Inl e
         | Inr q \<Rightarrow> Inr (q, quote_id_of q, cfg_get config ''asset''))
      else if action_type = ''stake'' then
        (case handle_staking_quote en config sca_address of
           Inl e \<Rightarrow> Inl e
         | Inr q \<Rightarrow>
             (case q of
                StakingQuote qid _ pool _ \<Rightarrow> Inr (q, qid, JStr pool)
              | _ \<Rightarrow> Inl (AttributeError ''quote has no attribute staking_pool_address'')))
      else if action_type = ''supply_asset'' then
        (case handle_lending_quote en config sca_address of
           Inl e \<Rightarrow> Inl e
         | Inr q \<Rightarrow>
             (case q of
                LendingQuote qid _ pool _ \<Rightarrow> Inr (q, qid, JStr pool)
              | _ \<Rightarrow> Inl (AttributeError ''quote has no attribute lending_pool_address'')))
      else Inl (ValueError ''Unsupported action type for quoting''))"

definition no_grant_error :: exn where
  "no_grant_error = SigningException ''No valid session key grant found for this action''"

text \<open>
  \<open>_sign_and_execute\<close>: the calls it makes, in order, and its result. The grant is looked
  up for the target contract and \<open>int(amount_to_check)\<close>; \<open>if not grant\<close> raises
  \<open>SigningException\<close> before anything is signed or executed.
\<close>

definition sign_and_execute ::
  "env \<Rightarrow> nat \<Rightarrow> string \<Rightarrow> string \<Rightarrow> quote \<Rightarrow> string \<Rightarrow> json \<Rightarrow>
     call list \<times> (exn + tx_result)" where
  "sign_and_execute en user_id sca_address action_type q message_to_sign target_contract =
     (case py_int (amount_to_check q) of
        None \<Rightarrow> ([], Inl (ValueError ''invalid literal for int()''))
      | Some v \<Rightarrow>
          (case find_grant en user_id target_contract v of
             Inl e \<Rightarrow> ([FindGrant target_contract v (Inl e)], Inl e)
           | Inr None \<Rightarrow>
               ([FindGrant target_contract v (Inr None)],
                Inl no_grant_error)
           | Inr (Some g) \<Rightarrow>
               (case sign_message en g message_to_sign of
                  Inl e \<Rightarrow>
                    ([FindGrant target_contract v (Inr (Some g)),
                      Sign g message_to_sign (Inl e)], Inl e)
                | Inr user_signature \<Rightarrow>
                    if action_type = ''swap'' \<or> action_type = ''bridge'' \<or>
                       action_type = ''stake'' \<or> action_type = ''supply_asset''
                    then
                      ([FindGrant target_contract v (Inr (Some g)),
                        Sign g message_to_sign (Inr user_signature),
                        Execute action_type (quote_id_of q) user_signature sca_address],
                       execute_action en action_type (quote_id_of q) user_signature
                         sca_address)
                    else
                      ([FindGrant target_contract v (Inr (Some g)),
                        Sign g message_to_sign (Inr user_signature)],
                       Inl (ValueError ''Cannot execute unknown action type'')))))"

text \<open>Whether a list of calls holds an execute call, or a grant lookup answered \<open>None\<close>.\<close>

definition has_execute :: "call list \<Rightarrow> bool" where
  "has_execute calls = list_ex (\<lambda>c. case c of Execute _ _ _ _ \<Rightarrow> True | _ \<Rightarrow> False) calls"

definition grant_refused :: "call list \<Rightarrow> bool" where
  "grant_refused calls =
     list_ex (\<lambda>c. case c of FindGrant _ _ (Inr None) \<Rightarrow> True | _ \<Rightarrow> False) calls"

section \<open>Graph execution engine\<close>

text \<open>
  The names bound at module level in \<open>action_executor_service.py\<close>: those of its import
  statements (lines 2 to 13), \<open>logger\<close> and the class. A name that is bound neither there
  nor as a built-in raises \<open>NameError\<close> when it is evaluated; \<open>lookup_names\<close> evaluates
  names in order and stops at the first that is unbound.
\<close>

definition module_globals :: "string list" where
  "module_globals =
     [''logging'', ''Session'', ''select'', ''datetime'', ''re'', ''op'',
      ''Workflow'', ''WorkflowStatus'', ''WorkflowExecution'', ''ExecutionStatus'',
      ''blockchain_manager'', ''BlockchainServiceException'', ''SwapQuote'',
      ''TransactionResult'', ''BridgeQuote'', ''StakingQuote'', ''LendingQuote'',
      ''OnchainData'', ''signing_service'', ''SigningException'', ''logger'',
      ''ActionExecutorService'']"

fun lookup_names :: "string list \<Rightarrow> string list \<Rightarrow> exn option" where
  "lookup_names globals [] = None"
| "lookup_names globals (n # ns) =
     (if n \<in> set globals then lookup_names globals ns else Some (name_error n))"

text \<open>
  The execution class the executor uses is the one line 10 imports,
  \<open>app.models.execution.WorkflowExecution\<close>. Its methods are
  \<open>start_execution(self, trigger_data=None)\<close> and
  \<open>fail_execution(self, error_message, error_details=None)\<close>. A call binds its keyword
  arguments to the parameters: a keyword that names no parameter, or a parameter without
  default that is given no argument, raises \<open>TypeError\<close> before the body runs.
  (\<open>models/workflow_execution.py\<close> defines another class of the same name, with
  \<open>start_execution(self, start_node_id)\<close>, \<open>advance_to_node\<close> and
  \<open>fail_execution(self, error)\<close>, which records \<open>failed_at_node\<close>; the executor does not
  import it.)
\<close>

record signature =
  parameters :: "string list"
  required :: "string list"

definition start_execution_signature :: signature where
  "start_execution_signature = \<lparr> parameters = [''trigger_data''], required = [] \<rparr>"

definition fail_execution_signature :: signature where
  "fail_execution_signature =
     \<lparr> parameters = [''error_message'', ''error_details''], required = [''error_message''] \<rparr>"

definition bind_keywords :: "string \<Rightarrow> signature \<Rightarrow> string list \<Rightarrow> exn option" where
  "bind_keywords method sg keywords =
     (case find (\<lambda>k. k \<notin> set (parameters sg)) keywords of
        Some k \<Rightarrow>
          Some (TypeError (method @ ''() got an unexpected keyword argument '' @
                           [CHR 0x27] @ k @ [CHR 0x27]))
      | None \<Rightarrow>
          (case find (\<lambda>p. p \<notin> set keywords) (required sg) of
             Some p \<Rightarrow>
               Some (TypeError (method @ ''() missing 1 required positional argument: '' @
                                [CHR 0x27] @ p @ [CHR 0x27]))
           | None \<Rightarrow> None))"

text \<open>
  What a call of \<open>execute_for_workflow\<close> leaves behind: the exception that leaves the
  function, the execution rows it committed (status, error message and error details,
  the columns of the imported class), the nodes the \<open>while\<close> loop ran its body for, and
  the calls made on the provider and the signing service.
\<close>

record execution_row =
  row_status :: string
  row_error_message :: "string option"
  row_error_details :: "json option"

record run_outcome =
  raised :: "exn option"
  committed :: "execution_row list"
  visited :: "string list"
  provider_calls :: "call list"

definition raised_before_loop :: "exn \<Rightarrow> run_outcome" where
  "raised_before_loop e =
     \<lparr> raised = Some e, committed = [], visited = [], provider_calls = [] \<rparr>"

definition returned_at_once :: run_outcome where
  "returned_at_once = \<lparr> raised = None, committed = [], visited = [], provider_calls = [] \<rparr>"

text \<open>
  \<open>execute_for_workflow\<close>, lines 28 to 49. \<open>db_begin\<close> is the exception of
  \<open>self.db.begin()\<close>, if it raises; \<open>found\<close> is what the query gives (an exception, no
  workflow, or the workflow). The argument of \<open>self.db.execute\<close> is evaluated before the
  query is sent: \<open>select(Workflow).options(selectinload(Workflow.user))\<close> evaluates the
  names \<open>select\<close>, \<open>Workflow\<close> and \<open>selectinload\<close> in this order. A missing workflow is
  logged and the function returns. Without a start node the function calls
  \<open>execution.fail_execution(error={...})\<close>, otherwise
  \<open>execution.start_execution(start_node_id=start_node_id)\<close>; both calls stand before the
  \<open>try\<close> statement. \<open>remainder\<close> stands for the lines that follow such a call when it
  binds (for the start node, lines 50 to 134: the commit of the new row, the two indices,
  the loop and its handler): what they do is left open, \<open>None\<close> meaning that they do not
  return. The result \<open>None\<close> of the function means the same.
\<close>

definition execute_for_workflow ::
  "string list \<Rightarrow> exn option \<Rightarrow> exn + workflow option \<Rightarrow>
     (string option \<Rightarrow> run_outcome option) \<Rightarrow> run_outcome option" where
  "execute_for_workflow globals db_begin found remainder =
     (case db_begin of
        Some e \<Rightarrow> Some (raised_before_loop e)
      | None \<Rightarrow>
          (case lookup_names globals [''select'', ''Workflow'', ''selectinload''] of
             Some e \<Rightarrow> Some (raised_before_loop e)
           | None \<Rightarrow>
               (case found of
                  Inl e \<Rightarrow> Some (raised_before_loop e)
                | Inr None \<Rightarrow> Some returned_at_once
                | Inr (Some w) \<Rightarrow>
                    (case lookup_names globals [''WorkflowExecution''] of
                       Some e \<Rightarrow> Some (raised_before_loop e)
                     | None \<Rightarrow>
                         if start_node_id w = None \<or> start_node_id w = Some [] then
                           (case bind_keywords ''fail_execution'' fail_execution_signature
                                   [''error''] of
                              Some e \<Rightarrow> Some (raised_before_loop e)
                            | None \<Rightarrow> remainder None)
                         else
                           (case bind_keywords ''start_execution'' start_execution_signature
                                   [''start_node_id''] of
                              Some e \<Rightarrow> Some (raised_before_loop e)
                            | None \<Rightarrow> remainder (start_node_id w))))))"

section \<open>Example data\<close>

text \<open>Three nodes of which two are never the target of an edge.\<close>

definition wf_two_roots :: workflow where
  "wf_two_roots =
     \<lparr> wf_user_id = 1, wf_sca_address = ''0xsca'', trigger_config = [], wf_state = None,
       nodes = [\<lparr> node_id = ''a'', node_type = ''condition'', node_config = [] \<rparr>,
                \<lparr> node_id = ''b'', node_type = ''condition'', node_config = [] \<rparr>,
                \<lparr> node_id = ''c'', node_type = ''condition'', node_config = [] \<rparr>],
       edges = [\<lparr> edge_source = ''b'', edge_target = ''a'', edge_label = Some ''on_true'' \<rparr>] \<rparr>"

text \<open>A grant of user 7 for the target \<open>WETH\<close>, with a ceiling of 100 per transaction.\<close>

definition grant_weth :: grant where
  "grant_weth =
     \<lparr> grant_id = 1, grant_user_id = 7, public_address = ''0xsession'', expires_at = 2000,
       permissions = [(''allowed_targets'', JList [JStr ''WETH'']),
                      (''spend_limits'', JObj [(''max_spend_per_tx'', JInt 100)])] \<rparr>"

text \<open>
  An RSS workflow as the database gives it, and a feed with three entries, the newest at
  time 9.
\<close>

definition one_feed :: "json \<Rightarrow> exn + feed" where
  "one_feed url = Inr \<lparr> bozo = False, entries = [5, 9, 7] \<rparr>"

definition wf_rss_loaded :: workflow where
  "wf_rss_loaded =
     \<lparr> wf_user_id = 1, wf_sca_address = ''0xsca'',
       trigger_config = [(''source'', JStr ''rss''),
                         (''params'', JObj [(''feed_url'', JStr ''https://example.org/feed'')])],
       wf_state = None, nodes = [], edges = [] \<rparr>"

text \<open>
  The manager's breaker with a threshold of 5 and a recovery timeout of 60 seconds, with
  or without Tornado; five calls in which the primary adapter would raise and the
  fallback would answer.
\<close>

definition breaker5 :: "bool \<Rightarrow> breaker_settings" where
  "breaker5 tornado = manager_breaker 5 60 tornado"

definition breaker_raises :: "bool \<Rightarrow> exn" where
  "breaker_raises tornado = (if tornado then not_a_listener else name_error ''gen'')"

definition five_failures :: "(int \<times> (exn + string) \<times> (exn + string)) list" where
  "five_failures =
     [(1, Inl (ProviderError ''timeout''), Inr ''fallback quote''),
      (2, Inl (ProviderError ''timeout''), Inr ''fallback quote''),
      (3, Inl (ProviderError ''timeout''), Inr ''fallback quote''),
      (4, Inl (ProviderError ''timeout''), Inr ''fallback quote''),
      (5, Inl (ProviderError ''timeout''), Inr ''fallback quote'')]"

text \<open>
  Collaborators for the signing examples: the provider quotes swaps for the configured
  amount with an empty route, the grant lookup is \<open>find_valid_grant_for_action\<close> on a
  grants table at time 1000, signing and executing succeed.
\<close>

definition env_demo :: "grant list \<Rightarrow> env" where
  "env_demo db =
     \<lparr> get_swap_quote = (\<lambda>config sca.
          (case cfg_get config ''amount'' of
             JStr a \<Rightarrow> Inr (SwapQuote ''quote-1'' a [] [(''quote_id'', JStr ''quote-1'')])
           | _ \<Rightarrow> Inl (ProviderError ''bad amount''))),
       get_bridge_quote = (\<lambda>config sca. Inl (ProviderError ''unavailable'')),
       get_staking_quote = (\<lambda>config sca. Inl (ProviderError ''unavailable'')),
       get_lending_quote = (\<lambda>config sca. Inl (ProviderError ''unavailable'')),
       find_grant = (\<lambda>uid target v.
          (case target of
             JStr t \<Rightarrow> find_valid_grant_for_action db 1000 uid t v
           | _ \<Rightarrow> Inr None)),
       sign_message = (\<lambda>g msg. Inr (''signed:'' @ msg)),
       execute_action = (\<lambda>action qid sg sca.
          Inr \<lparr> tx_hash = ''0xhash'', tx_status = ''confirmed'' \<rparr>) \<rparr>"

definition swap_node :: "string \<Rightarrow> string \<Rightarrow> node" where
  "swap_node n amt =
     \<lparr> node_id = n, node_type = ''swap'',
       node_config = [(''from_asset'', JStr ''WETH''), (''to_asset'', JStr ''USDC''),
                      (''amount'', JStr amt), (''from_chain'', JStr ''eth''),
                      (''to_chain'', JStr ''eth'')] \<rparr>"

definition swap_quote :: "string \<Rightarrow> quote" where
  "swap_quote amt = SwapQuote ''quote-1'' amt [] [(''quote_id'', JStr ''quote-1'')]"

text \<open>A workflow of user 7 with one swap node, and one whose only node refers to a missing output.\<close>

definition wf_swap :: "string \<Rightarrow> workflow" where
  "wf_swap amt =
     \<lparr> wf_user_id = 7, wf_sca_address = ''0xsca'', trigger_config = [], wf_state = None,
       nodes = [swap_node ''n1'' amt], edges = [] \<rparr>"

definition wf_unresolved :: workflow where
  "wf_unresolved =
     \<lparr> wf_user_id = 7, wf_sca_address = ''0xsca'', trigger_config = [], wf_state = None,
       nodes = [\<lparr> node_id = ''n1'', node_type = ''condition'',
                  node_config = [(''value'', JStr ''{{missing}}'')] \<rparr>],
       edges = [] \<rparr>"

section \<open>Entry node\<close>

lemma first_non_target_filter:
  "first_non_target T ns =
     (case filter (\<lambda>n. node_id n \<notin> T) ns of [] \<Rightarrow> None | c # _ \<Rightarrow> Some (node_id c))"
  by (induction ns) auto

text \<open>
  C10, as the code has it: the entry node is the first node in list order that is never
  the target of an edge (so the only such node when exactly one qualifies, and the first
  of them when several do); when no node qualifies it is the first node of the list; an
  empty node list has no entry node.
\<close>

theorem start_node_id_first_candidate:
  "start_node_id w =
     (case entry_candidates w of
        c # _ \<Rightarrow> Some (node_id c)
      | [] \<Rightarrow> (case nodes w of [] \<Rightarrow> None | n0 # _ \<Rightarrow> Some (node_id n0)))"
  by (simp add: start_node_id_def entry_candidates_def first_non_target_filter
      split: list.splits)

text \<open>
  C10 as stated fails when several nodes qualify: with nodes \<open>a, b, c\<close> and the single
  edge \<open>b \<rightarrow> a\<close>, both \<open>b\<close> and \<open>c\<close> are never a target, and the entry node is \<open>b\<close>, not
  the first node \<open>a\<close> of the list.
\<close>

theorem start_node_id_multiple_counterexample:
  "map node_id (entry_candidates wf_two_roots) = [''b'', ''c''] \<and>
   start_node_id wf_two_roots = Some ''b'' \<and>
   start_node_id wf_two_roots \<noteq> Some (node_id (hd (nodes wf_two_roots)))"
  by (simp add: wf_two_roots_def start_node_id_def entry_candidates_def target_ids_def)

section \<open>Expression resolver: what is replaced and what fails\<close>

lemma resolve_value_non_string:
  "(\<And>s. val \<noteq> JStr s) \<Longrightarrow> resolve_value data val = Inr val"
  by (cases val) (auto simp: resolve_value_def)

lemma resolve_value_no_match:
  "placeholder_match s = None \<Longrightarrow> resolve_value data (JStr s) = Inr (JStr s)"
  by (simp add: resolve_value_def)

lemma resolve_value_match:
  "placeholder_match s = Some body \<Longrightarrow>
   resolve_value data (JStr s) =
     (case walk data (path_keys (strip body)) of
        Inl e \<Rightarrow> Inl e
      | Inr JNull \<Rightarrow> Inl (UnresolvedPlaceholder s (strip body))
      | Inr v \<Rightarrow> Inr v)"
  by (simp add: resolve_value_def Let_def)

lemma walk_single_missing:
  "dict_get d k = None \<Longrightarrow> walk (JObj d) [k] = Inr JNull"
  by (simp add: py_get_def)

lemma walk_through_missing:
  "dict_get d k = None \<Longrightarrow> walk (JObj d) (k # k' # ks) = Inl (no_attribute_get JNull)"
  by (simp add: py_get_def)

text \<open>
  C5 at a value that begins with a placeholder and goes on: the value is not a single
  placeholder token, yet \<open>re.match\<close> accepts it and the whole entry is replaced by the
  looked-up value; the text after the closing braces is lost.
\<close>

theorem resolve_inputs_trailing_text:
  "\<not> is_single_placeholder ''{{nodes.n1.output.x}} USDC'' \<and>
   resolve_inputs [(''memo'', JStr ''{{nodes.n1.output.x}} USDC'')]
     (JObj [(''nodes'', JObj [(''n1'', JObj [(''output'', JObj [(''x'', JInt 5)])])])])
   = Inr [(''memo'', JInt 5)]"
  by (simp add: is_single_placeholder_def resolve_inputs_def resolve_value_def
      is_path_char_def is_word_char_def strip_def is_space_def path_keys_def py_get_def
      dict_get_def dict_set_def)

text \<open>
  C6 at the spec's own scenario: \<open>{{nonexistent_node.output.value}}\<close> against empty
  execution data. The first \<open>get\<close> answers \<open>None\<close>, the second is called on \<open>None\<close> and
  raises \<open>AttributeError\<close>, which the \<open>except\<close> clause does not catch: the failure
  carries neither the path nor the placeholder text.
\<close>

theorem resolve_inputs_missing_node_attribute_error:
  "placeholder_match ''{{nonexistent_node.output.value}}'' =
     Some ''nonexistent_node.output.value'' \<and>
   resolve_inputs [(''amount'', JStr ''{{nonexistent_node.output.value}}'')] (JObj [])
   = Inl (AttributeError
       ([CHR 0x27] @ ''NoneType'' @ [CHR 0x27] @ '' object has no attribute '' @
        [CHR 0x27] @ ''get'' @ [CHR 0x27]))"
  by (simp add: resolve_inputs_def resolve_value_def is_path_char_def is_word_char_def
      strip_def is_space_def path_keys_def py_get_def no_attribute_get_def dict_get_def
      dict_set_def)

section \<open>Grant resolver: which grant is returned\<close>

lemma first_within_limits_Some:
  "first_within_limits gs v = Inr (Some g) \<Longrightarrow>
     g \<in> set gs \<and> check_spend_limits g v = Inr True"
  by (induction gs) (auto split: sum.splits bool.splits if_splits)

lemma first_within_limits_None:
  "first_within_limits gs v = Inr None \<Longrightarrow>
     \<forall>g \<in> set gs. check_spend_limits g v = Inr False"
  by (induction gs) (auto split: sum.splits bool.splits if_splits)

text \<open>
  A returned grant belongs to the user, is unexpired, passes the spend-limit check, and
  its allowed-targets text contains the target.
\<close>

lemma find_valid_grant_sound:
  "find_valid_grant_for_action db now uid t v = Inr (Some g) \<Longrightarrow>
     g \<in> set db \<and> grant_user_id g = uid \<and> now < expires_at g \<and>
     (\<exists>txt. astext (permissions g) ''allowed_targets'' = Some txt \<and> contains txt t) \<and>
     check_spend_limits g v = Inr True"
  by (auto simp: find_valid_grant_for_action_def grant_matches_def
      dest!: first_within_limits_Some split: option.splits)

lemma find_valid_grant_none:
  "find_valid_grant_for_action db now uid t v = Inr None \<Longrightarrow>
     \<forall>g \<in> set db. grant_matches now uid t g \<longrightarrow> check_spend_limits g v = Inr False"
  by (auto simp: find_valid_grant_for_action_def dest!: first_within_limits_None)

text \<open>
  The spend-limit check passes exactly when no \<open>spend_limits\<close> are declared, or they are
  a dictionary that declares no per-transaction ceiling or a numeric ceiling the value
  does not exceed.
\<close>

lemma check_spend_limits_passes:
  "check_spend_limits g v = Inr True \<longleftrightarrow>
     (dict_get (permissions g) ''spend_limits'' = None \<or>
      (\<exists>sl. dict_get (permissions g) ''spend_limits'' = Some (JObj sl) \<and>
         (case declared_ceiling g of
            None \<Rightarrow> True
          | Some (JInt c) \<Rightarrow> v \<le> c
          | Some (JBool b) \<Rightarrow> v \<le> (if b then 1 else 0)
          | Some _ \<Rightarrow> False)))"
  by (auto simp: check_spend_limits_def declared_ceiling_def py_get_def
      split: option.splits json.splits sum.splits)

text \<open>
  C4 at a target that is not among the allowed targets but occurs inside one of them:
  the only grant allows \<open>WETH\<close>, the action targets \<open>ETH\<close>, and the grant is returned.
\<close>

theorem find_valid_grant_substring_target:
  "\<not> declares_target grant_weth ''ETH'' \<and>
   astext (permissions grant_weth) ''allowed_targets'' = Some (''['' @ quoted ''WETH'' @ '']'') \<and>
   find_valid_grant_for_action [grant_weth] 1000 7 ''ETH'' 50 = Inr (Some grant_weth)"
  by (simp add: find_valid_grant_for_action_def grant_matches_def astext_def dict_get_def
      grant_weth_def quoted_def check_spend_limits_def py_get_def declares_target_def
      declared_targets_def)
section \<open>Trigger evaluator: what a check stores\<close>

text \<open>
  When the checker answers, its state is assigned to the workflow exactly when it reports
  that the trigger fired; otherwise the workflow is left as it was.
\<close>

lemma check_polling_event_stores_when_fired:
  "checker_for cks w = Inr (Some chk) \<Longrightarrow> chk w = Inr (fired, new_state) \<Longrightarrow>
   check_polling_event cks w =
     Inr (fired, if fired then w\<lparr> wf_state := Some new_state \<rparr> else w)"
  by (simp add: check_polling_event_def)

lemma rss_check_not_fired_state:
  "rss_check parse w = Inr (False, s) \<Longrightarrow>
     \<exists>st. wf_state w = Some st \<and> s = state_or_empty st"
  by (auto simp: rss_check_def read_state_def Let_def
      split: sum.splits if_splits json.splits option.splits)

text \<open>
  On a workflow without the attribute \<open>state\<close> the RSS checker and the EVM checker raise
  at their first reading of it, whatever the feed holds.
\<close>

lemma rss_check_loaded:
  "wf_state w = None \<Longrightarrow> rss_check parse w = Inl no_attribute_state"
  by (simp add: rss_check_def read_state_def)

lemma evm_check_loaded:
  "wf_state w = None \<Longrightarrow> evm_check_without_key w = Inl no_attribute_state"
  by (simp add: evm_check_without_key_def read_state_def)

lemma check_polling_event_loaded:
  assumes "wf_state w = None"
    and "dict_get (trigger_config w) ''source'' = Some (JStr src)"
    and "src = ''rss'' \<or> src = ''evm''"
  shows "check_polling_event (service_checkers parse) w = Inl no_attribute_state"
  using assms
  by (auto simp: check_polling_event_def checker_for_def service_checkers_def
      rss_check_loaded evm_check_loaded)

text \<open>
  C3 at an RSS workflow as loaded from the database, with a feed that holds entries: the
  checker raises \<open>AttributeError\<close> when it reads \<open>workflow.state\<close>, the exception leaves
  \<open>_check_polling_event\<close>, and no state is stored.
\<close>

theorem check_polling_event_loaded_workflow_raises:
  "wf_state wf_rss_loaded = None \<and>
   checker_for (service_checkers one_feed) wf_rss_loaded = Inr (Some (rss_check one_feed)) \<and>
   rss_check one_feed wf_rss_loaded = Inl no_attribute_state \<and>
   check_polling_event (service_checkers one_feed) wf_rss_loaded = Inl no_attribute_state"
  by (simp add: wf_rss_loaded_def check_polling_event_def checker_for_def
      service_checkers_def rss_check_def read_state_def dict_get_def)

section \<open>Circuit breaker: what a call through the manager does\<close>

text \<open>
  The breaker as \<open>__init__\<close> builds it, closed: a call through the manager raises before
  either adapter is reached and leaves the breaker as it was, whatever the adapters would
  answer.
\<close>

lemma manager_call_reaches_no_adapter:
  "execute_with_breaker (manager_breaker n t tornado) now (BreakerClosed c) p f =
     \<lparr> returned = Inl (if tornado then not_a_listener else name_error ''gen''),
       breaker_after = BreakerClosed c, primary_invoked = False, fallback_invoked = False \<rparr>"
  by (simp add: execute_with_breaker_def breaker_call_def manager_breaker_def
      listener_error_def not_a_listener_def name_error_def)

lemma manager_calls_reach_no_adapter:
  "breaker_after_calls (manager_breaker n t tornado) (BreakerClosed c) calls = BreakerClosed c \<and>
   map primary_invoked (run_calls (manager_breaker n t tornado) (BreakerClosed c) calls) =
     replicate (length calls) False \<and>
   map fallback_invoked (run_calls (manager_breaker n t tornado) (BreakerClosed c) calls) =
     replicate (length calls) False"
proof (induction calls)
  case Nil
  then show ?case by simp
next
  case (Cons x xs)
  obtain tm p f where x: "x = (tm, p, f)" by (cases x) auto
  from Cons x show ?case by (simp add: manager_call_reaches_no_adapter)
qed

text \<open>The exclusion list of the manager excludes no exception.\<close>

lemma manager_exclude_excludes_nothing:
  "is_system_error (exclude (manager_breaker n t tornado)) e"
  by (simp add: is_system_error_def manager_breaker_def excludes_def)

text \<open>
  With a listener list that raises nothing, a \<open>NotImplementedError\<close> of the primary under
  that exclusion list is counted like any other failure.
\<close>

lemma not_implemented_counted:
  "execute_with_breaker ((manager_breaker n t True)\<lparr> listeners := [] \<rparr>) now (BreakerClosed c)
       (Inl (NotImplementedError m)) f =
     (if n \<le> Suc c then
        \<lparr> returned = (case f of Inr r \<Rightarrow> Inr r
                       | Inl fe \<Rightarrow> Inl (BlockchainServiceException
                                           ''Both primary and fallback services failed.'')),
          breaker_after = BreakerOpen now, primary_invoked = True, fallback_invoked = True \<rparr>
      else
        \<lparr> returned = Inl (NotImplementedError m), breaker_after = BreakerClosed (Suc c),
          primary_invoked = True, fallback_invoked = False \<rparr>)"
  by (simp add: execute_with_breaker_def breaker_call_def manager_breaker_def
      listener_error_def is_system_error_def excludes_def split: sum.splits)

text \<open>
  C7 at a fresh manager with threshold 5: in five calls whose primary would raise, and in
  the sixth, no adapter is invoked. Every call raises before the primary is reached (the
  listener's \<open>AttributeError\<close>; without Tornado the \<open>NameError\<close> of \<open>call_async\<close>), the
  breaker stays closed with no failure counted, and the sixth call is not answered by the
  fallback.
\<close>

theorem manager_breaker_never_opens:
  "map primary_invoked (run_calls (breaker5 tornado) (BreakerClosed 0) five_failures) =
     [False, False, False, False, False] \<and>
   map returned (run_calls (breaker5 tornado) (BreakerClosed 0) five_failures) =
     replicate 5 (Inl (breaker_raises tornado)) \<and>
   breaker_after_calls (breaker5 tornado) (BreakerClosed 0) five_failures = BreakerClosed 0 \<and>
   execute_with_breaker (breaker5 tornado) 6
       (breaker_after_calls (breaker5 tornado) (BreakerClosed 0) five_failures)
       (Inl (ProviderError ''timeout'')) (Inr ''fallback quote'') =
     \<lparr> returned = Inl (breaker_raises tornado), breaker_after = BreakerClosed 0,
       primary_invoked = False, fallback_invoked = False \<rparr>"
  by (simp add: breaker5_def breaker_raises_def five_failures_def
      manager_call_reaches_no_adapter numeral_eq_Suc)

text \<open>
  C8 at a call whose primary raises \<open>NotImplementedError\<close> (the OneBalance adapter's
  \<open>get_staking_quote\<close>): the manager's exclusion list does not exclude it; through the
  breaker as built the call raises before the primary is reached, so that
  \<open>NotImplementedError\<close> does not surface; and with the listener taken out (Tornado
  installed), the failure is counted, and the fifth such call in a row opens the breaker
  and is sent to the fallback.
\<close>

theorem not_implemented_is_counted:
  "is_system_error (exclude (breaker5 tornado))
     (NotImplementedError ''Staking quote via OneBalance is not yet implemented.'') \<and>
   execute_with_breaker (breaker5 tornado) 1 (BreakerClosed 0)
       (Inl (NotImplementedError ''Staking quote via OneBalance is not yet implemented.''))
       (Inr ''fallback quote'') =
     \<lparr> returned = Inl (breaker_raises tornado), breaker_after = BreakerClosed 0,
       primary_invoked = False, fallback_invoked = False \<rparr> \<and>
   execute_with_breaker ((breaker5 True)\<lparr> listeners := [] \<rparr>) 1 (BreakerClosed 0)
       (Inl (NotImplementedError ''Staking quote via OneBalance is not yet implemented.''))
       (Inr ''fallback quote'') =
     \<lparr> returned = Inl (NotImplementedError
                         ''Staking quote via OneBalance is not yet implemented.''),
       breaker_after = BreakerClosed 1, primary_invoked = True, fallback_invoked = False \<rparr> \<and>
   execute_with_breaker ((breaker5 True)\<lparr> listeners := [] \<rparr>) 5 (BreakerClosed 4)
       (Inl (NotImplementedError ''Staking quote via OneBalance is not yet implemented.''))
       (Inr ''fallback quote'') =
     \<lparr> returned = Inr ''fallback quote'', breaker_after = BreakerOpen 5,
       primary_invoked = True, fallback_invoked = True \<rparr>"
  by (simp add: breaker5_def breaker_raises_def manager_exclude_excludes_nothing
      manager_call_reaches_no_adapter not_implemented_counted)

section \<open>Signing: the grant comes before the execute call\<close>

text \<open>
  \<open>_sign_and_execute\<close> makes an execute call only after the grant lookup, for the target
  contract it was given and \<open>int(amount)\<close>, has answered with a grant, and after that
  grant has signed; a lookup answered \<open>None\<close> raises \<open>SigningException\<close> and no execute
  call is made.
\<close>

lemma sign_and_execute_has_execute:
  assumes "sign_and_execute en uid sca a q msg tgt = (calls, r)" and "has_execute calls"
  shows "\<exists>v g sg. py_int (amount_to_check q) = Some v \<and>
           find_grant en uid tgt v = Inr (Some g) \<and>
           calls = [FindGrant tgt v (Inr (Some g)), Sign g msg (Inr sg),
                    Execute a (quote_id_of q) sg sca]"
  using assms
  by (auto simp: sign_and_execute_def has_execute_def
      split: option.splits sum.splits if_splits)

lemma sign_and_execute_refused:
  assumes "sign_and_execute en uid sca a q msg tgt = (calls, r)" and "grant_refused calls"
  shows "\<not> has_execute calls \<and> r = Inl no_grant_error"
  using assms
  by (auto simp: sign_and_execute_def has_execute_def grant_refused_def
      split: option.splits sum.splits if_splits)

lemma sign_and_execute_no_grant:
  "py_int (amount_to_check q) = Some v \<Longrightarrow> find_grant en uid tgt v = Inr None \<Longrightarrow>
   sign_and_execute en uid sca a q msg tgt = ([FindGrant tgt v (Inr None)], Inl no_grant_error)"
  by (simp add: sign_and_execute_def)

section \<open>Graph execution engine: every call ends before the loop\<close>

lemma selectinload_unbound:
  "lookup_names module_globals [''select'', ''Workflow'', ''selectinload''] =
     Some (name_error ''selectinload'')"
  by (simp add: module_globals_def)

text \<open>
  With a usable session, \<open>execute_for_workflow\<close> raises \<open>NameError\<close> at line 30, before the
  query is sent: nothing is committed, the loop is not entered, no call is made.
\<close>

lemma execute_for_workflow_name_error:
  "execute_for_workflow module_globals None found remainder =
     Some (raised_before_loop (name_error ''selectinload''))"
  by (simp add: execute_for_workflow_def selectinload_unbound del: lookup_names.simps)

text \<open>
  Were \<open>selectinload\<close> imported, the call on the execution object that stands before the
  \<open>try\<close> statement would raise \<open>TypeError\<close>: the imported class takes neither
  \<open>start_node_id\<close> nor \<open>error\<close>.
\<close>

lemma fail_execution_rejects_error:
  "bind_keywords ''fail_execution'' fail_execution_signature [''error''] =
     Some (TypeError (''fail_execution() got an unexpected keyword argument '' @
                      [CHR 0x27] @ ''error'' @ [CHR 0x27]))"
  by (simp add: bind_keywords_def fail_execution_signature_def)

lemma start_execution_rejects_start_node_id:
  "bind_keywords ''start_execution'' start_execution_signature [''start_node_id''] =
     Some (TypeError (''start_execution() got an unexpected keyword argument '' @
                      [CHR 0x27] @ ''start_node_id'' @ [CHR 0x27]))"
  by (simp add: bind_keywords_def start_execution_signature_def)

lemma execute_for_workflow_import_repaired:
  "\<exists>m. execute_for_workflow (''selectinload'' # module_globals) None (Inr (Some w)) remainder =
     Some (raised_before_loop (TypeError m))"
  by (auto simp: execute_for_workflow_def module_globals_def fail_execution_rejects_error
      start_execution_rejects_start_node_id)


text \<open>
  C1 at the spec's second scenario: a swap of 1000 by user 7, whose only grant has a
  ceiling of 100. The quote's target is \<open>WETH\<close>; \<open>_sign_and_execute\<close> looks the grant up
  for that target and the value 1000, gets none, raises \<open>SigningException\<close> and makes no
  execute call. \<open>execute_for_workflow\<close> on that workflow raises \<open>NameError\<close> at line 30:
  no execution row is committed, so none is marked failed and no node id is recorded.
\<close>

theorem refused_grant_run_records_nothing:
  "get_quote_for_action (env_demo [grant_weth]) ''swap'' (node_config (swap_node ''n1'' ''1000''))
       ''0xsca'' =
     Inr (swap_quote ''1000'', ''quote-1'', JStr ''WETH'') \<and>
   sign_and_execute (env_demo [grant_weth]) 7 ''0xsca'' ''swap'' (swap_quote ''1000'')
       ''quote-1'' (JStr ''WETH'') =
     ([FindGrant (JStr ''WETH'') 1000 (Inr None)], Inl no_grant_error) \<and>
   \<not> has_execute [FindGrant (JStr ''WETH'') 1000 (Inr None)] \<and>
   execute_for_workflow module_globals None (Inr (Some (wf_swap ''1000''))) remainder =
     Some \<lparr> raised = Some (name_error ''selectinload''), committed = [], visited = [],
            provider_calls = [] \<rparr>"
  by (simp add: execute_for_workflow_name_error raised_before_loop_def
      get_quote_for_action_def handle_swap_quote_def cfg_get_def amount_truthy_def
      swap_node_def swap_quote_def env_demo_def dict_get_def
      sign_and_execute_def py_int_def int_literal_def strip_def is_space_def is_digit_def
      digits_value_def has_execute_def
      find_valid_grant_for_action_def grant_matches_def astext_def quoted_def
      check_spend_limits_def py_get_def grant_weth_def)

text \<open>
  C2 at the spec's third scenario: a node whose configuration refers to an output that
  does not exist, so that resolving its inputs raises. \<open>execute_for_workflow\<close> on that
  workflow raises \<open>NameError\<close> at line 30 and commits nothing: no execution is marked
  failed, no message and no node id are recorded. The handler's own call,
  \<open>fail_execution(error={...})\<close>, is one the imported class rejects with \<open>TypeError\<close>, as
  it rejects \<open>start_execution(start_node_id=...)\<close> before the \<open>try\<close> statement.
\<close>

theorem loop_failure_records_nothing:
  "resolve_inputs [(''value'', JStr ''{{missing}}'')] (JObj []) =
     Inl (UnresolvedPlaceholder ''{{missing}}'' ''missing'') \<and>
   execute_for_workflow module_globals None (Inr (Some wf_unresolved)) remainder =
     Some \<lparr> raised = Some (name_error ''selectinload''), committed = [], visited = [],
            provider_calls = [] \<rparr> \<and>
   bind_keywords ''fail_execution'' fail_execution_signature [''error''] =
     Some (TypeError (''fail_execution() got an unexpected keyword argument '' @
                      [CHR 0x27] @ ''error'' @ [CHR 0x27])) \<and>
   execute_for_workflow (''selectinload'' # module_globals) None (Inr (Some wf_unresolved))
       remainder =
     Some \<lparr> raised = Some (TypeError (''start_execution() got an unexpected keyword argument '' @
                                       [CHR 0x27] @ ''start_node_id'' @ [CHR 0x27])),
            committed = [], visited = [], provider_calls = [] \<rparr>"
  by (simp add: execute_for_workflow_name_error raised_before_loop_def
      fail_execution_rejects_error start_execution_rejects_start_node_id
      execute_for_workflow_def module_globals_def wf_unresolved_def start_node_id_def
      target_ids_def
      resolve_inputs_def resolve_value_def is_path_char_def is_word_char_def strip_def
      is_space_def path_keys_def py_get_def dict_get_def)

end
